theory Spec2Isabelle
  imports Main
begin

section \<open>The Bedrock client script (src/agent/client.py)\<close>

text \<open>
  The script is straight-line code: it assigns one key of \<open>os.environ\<close>, builds a
  client with \<open>boto3.client\<close>, calls \<open>client.converse\<close> once and prints one field of
  the answer. The model threads an explicit world (process environment, standard output,
  an event log, and the state of the remote collaborator) through these four steps.
  The vendor SDK is not part of the repository: it is a parameter of the model.
\<close>

subsection \<open>Python values and subscripting\<close>

text \<open>
  The values a response is built from. A dictionary is an association list read through
  \<open>map_of\<close>; its keys are strings, as in the request and response shapes of the script.
\<close>

datatype pyval =
    PNone
  | PBool bool
  | PInt int
  | PStr string
  | PList "pyval list"
  | PDict "(string \<times> pyval) list"

datatype py_error =
    KeyError
  | IndexError
  | TypeError
  | ValueError
  | UnicodeEncodeError
  | SdkError string

datatype subscript = Key string | Index int

text \<open>
  \<open>obj[k]\<close>. A dictionary raises KeyError on a key it does not hold (an integer is never
  one of its keys here); a list or a string raises IndexError out of range and TypeError
  on a string subscript; negative indices count from the end; \<open>None\<close>, booleans and
  integers are not subscriptable.
\<close>

definition seq_index :: "'a list \<Rightarrow> int \<Rightarrow> py_error + 'a" where
  "seq_index xs i =
     (if 0 \<le> i \<and> i < int (length xs) then Inr (xs ! nat i)
      else if i < 0 \<and> 0 \<le> int (length xs) + i then Inr (xs ! nat (int (length xs) + i))
      else Inl IndexError)"

fun py_getitem :: "pyval \<Rightarrow> subscript \<Rightarrow> py_error + pyval" where
  "py_getitem (PDict d) (Key k) =
     (case map_of d k of None \<Rightarrow> Inl KeyError | Some v \<Rightarrow> Inr v)"
| "py_getitem (PDict d) (Index i) = Inl KeyError"
| "py_getitem (PList xs) (Index i) = seq_index xs i"
| "py_getitem (PList xs) (Key k) = Inl TypeError"
| "py_getitem (PStr s) (Index i) =
     (case seq_index s i of Inl e \<Rightarrow> Inl e | Inr c \<Rightarrow> Inr (PStr [c]))"
| "py_getitem (PStr s) (Key k) = Inl TypeError"
| "py_getitem PNone k = Inl TypeError"
| "py_getitem (PBool b) k = Inl TypeError"
| "py_getitem (PInt n) k = Inl TypeError"

text \<open>\<open>response['output']['message']['content'][0]['text']\<close>, left to right.\<close>

definition extract_text :: "pyval \<Rightarrow> py_error + pyval" where
  "extract_text response =
     (case py_getitem response (Key ''output'') of
        Inl e \<Rightarrow> Inl e
      | Inr output \<Rightarrow>
     (case py_getitem output (Key ''message'') of
        Inl e \<Rightarrow> Inl e
      | Inr message \<Rightarrow>
     (case py_getitem message (Key ''content'') of
        Inl e \<Rightarrow> Inl e
      | Inr content \<Rightarrow>
     (case py_getitem content (Index 0) of
        Inl e \<Rightarrow> Inl e
      | Inr block \<Rightarrow> py_getitem block (Key ''text'')))))"

subsection \<open>The world and the external collaborators\<close>

text \<open>
  An event is logged for each effect of the script, in the order the effects happen.
  The two SDK events record the bearer token that the process environment holds at the
  moment of the call, which is what the SDK reads there. The print event is logged when
  the text has been written.
\<close>

datatype event =
    EvSetEnv string string
  | EvClient "string option" string string
  | EvConverse "string option" string pyval
  | EvPrint string

record 'w world =
  environ :: "string \<rightharpoonup> string"
  stdout :: string
  trace :: "event list"
  remote :: 'w

text \<open>
  What the script calls and does not define: \<open>boto3.client(service_name, region_name)\<close>,
  the client's \<open>converse(modelId, messages)\<close>, the built-in \<open>str\<close> that \<open>print\<close>
  applies to a value that is not a string, and the standard output stream. Both SDK
  calls see the process environment, may change the collaborator's own state \<open>'w\<close>,
  and may raise. \<open>str\<close> may raise (ValueError on an integer of more than 4300 digits).
  The stream raises on a text that its encoding cannot represent (UnicodeEncodeError):
  \<open>encode_error\<close> gives that error, or \<open>None\<close> for a text the stream accepts.
\<close>

record ('c, 'w) platform =
  boto3_client :: "(string \<rightharpoonup> string) \<Rightarrow> string \<Rightarrow> string \<Rightarrow> 'w \<Rightarrow> (py_error + 'c) \<times> 'w"
  client_converse ::
    "'c \<Rightarrow> (string \<rightharpoonup> string) \<Rightarrow> string \<Rightarrow> pyval \<Rightarrow> 'w \<Rightarrow> (py_error + pyval) \<times> 'w"
  builtin_str :: "pyval \<Rightarrow> py_error + string"
  encode_error :: "string \<Rightarrow> py_error option"

subsection \<open>The constants of the script\<close>

definition token_var :: string where
  "token_var = ''AWS_BEARER_TOKEN_BEDROCK''"

definition api_key :: string where
  "api_key = ''${api-key}''"

definition service_name :: string where
  "service_name = ''bedrock-runtime''"

definition region_name :: string where
  "region_name = ''us-east-1''"

definition model_id :: string where
  "model_id = ''us.anthropic.claude-3-5-haiku-20241022-v1:0''"

definition messages :: pyval where
  "messages =
     PList [PDict [(''role'', PStr ''user''),
                   (''content'',
                    PList [PDict [(''text'',
                      PStr ''Hello! Can you tell me about Amazon Bedrock?'')]])]]"

subsection \<open>The four steps\<close>

definition newline :: char where
  "newline = CHR 0x0A"

text \<open>\<open>os.environ[k] = v\<close>\<close>

definition setenv :: "string \<Rightarrow> string \<Rightarrow> 'w world \<Rightarrow> 'w world" where
  "setenv k v s = s\<lparr>environ := (environ s)(k \<mapsto> v), trace := trace s @ [EvSetEnv k v]\<rparr>"

text \<open>\<open>boto3.client(service_name=sv, region_name=rg)\<close>\<close>

definition new_client ::
  "('c, 'w) platform \<Rightarrow> string \<Rightarrow> string \<Rightarrow> 'w world \<Rightarrow> (py_error + 'c) \<times> 'w world" where
  "new_client p sv rg s =
     (case boto3_client p (environ s) sv rg (remote s) of
        (r, w) \<Rightarrow>
          (r, s\<lparr>remote := w, trace := trace s @ [EvClient (environ s token_var) sv rg]\<rparr>))"

text \<open>\<open>client.converse(modelId=mid, messages=msgs)\<close>\<close>

definition call_converse ::
  "('c, 'w) platform \<Rightarrow> 'c \<Rightarrow> string \<Rightarrow> pyval \<Rightarrow> 'w world \<Rightarrow> (py_error + pyval) \<times> 'w world" where
  "call_converse p c mid msgs s =
     (case client_converse p c (environ s) mid msgs (remote s) of
        (r, w) \<Rightarrow>
          (r, s\<lparr>remote := w, trace := trace s @ [EvConverse (environ s token_var) mid msgs]\<rparr>))"


text \<open>
  \<open>print(v)\<close> writes \<open>str(v)\<close> and a newline to standard output; \<open>str\<close> of a string is
  the string. \<open>print_text\<close> is the text that \<open>print(v)\<close> hands to the stream, or the
  error that \<open>str\<close> or the stream raises; when one of them raises nothing is written.
\<close>

definition py_str :: "('c, 'w) platform \<Rightarrow> pyval \<Rightarrow> py_error + string" where
  "py_str p v = (case v of PStr s \<Rightarrow> Inr s | _ \<Rightarrow> builtin_str p v)"

definition print_text :: "('c, 'w) platform \<Rightarrow> pyval \<Rightarrow> py_error + string" where
  "print_text p v =
     (case py_str p v of
        Inl e \<Rightarrow> Inl e
      | Inr txt \<Rightarrow> (case encode_error p txt of Some e \<Rightarrow> Inl e | None \<Rightarrow> Inr txt))"

definition py_print ::
  "('c, 'w) platform \<Rightarrow> pyval \<Rightarrow> 'w world \<Rightarrow> (py_error + unit) \<times> 'w world" where
  "py_print p v s =
     (case print_text p v of
        Inl e \<Rightarrow> (Inl e, s)
      | Inr txt \<Rightarrow>
          (Inr (), s\<lparr>stdout := stdout s @ txt @ [newline], trace := trace s @ [EvPrint txt]\<rparr>))"

subsection \<open>The script\<close>

text \<open>
  The module body, top to bottom. No exception is caught: the first step that raises
  ends the run with that error (\<open>Inl\<close>), and the later steps do not happen.
\<close>

definition script :: "('c, 'w) platform \<Rightarrow> 'w world \<Rightarrow> (py_error + unit) \<times> 'w world" where
  "script p s0 =
     (let s1 = setenv token_var api_key s0 in
      case new_client p service_name region_name s1 of
        (Inl e, s2) \<Rightarrow> (Inl e, s2)
      | (Inr client, s2) \<Rightarrow>
     (case call_converse p client model_id messages s2 of
        (Inl e, s3) \<Rightarrow> (Inl e, s3)
      | (Inr response, s3) \<Rightarrow>
     (case extract_text response of
        Inl e \<Rightarrow> (Inl e, s3)
      | Inr text \<Rightarrow> py_print p text s3)))"

text \<open>The interpreter's exit status: 0 when the module body ends, 1 on an uncaught exception.\<close>

definition exit_code :: "py_error + unit \<Rightarrow> nat" where
  "exit_code r = (case r of Inl e \<Rightarrow> 1 | Inr u \<Rightarrow> 0)"

text \<open>The events a run appends to the log it started with.\<close>

definition new_events :: "('c, 'w) platform \<Rightarrow> 'w world \<Rightarrow> event list" where
  "new_events p s = drop (length (trace s)) (trace (snd (script p s)))"

definition is_converse :: "event \<Rightarrow> bool" where
  "is_converse e = (case e of EvConverse tok mid msgs \<Rightarrow> True | _ \<Rightarrow> False)"

text \<open>
  An output is a single line when it ends with its only newline character.
\<close>

definition single_line :: "string \<Rightarrow> bool" where
  "single_line out = (out \<noteq> [] \<and> last out = newline \<and> newline \<notin> set (butlast out))"

text \<open>
  The module body wrapped as a function and called twice in one process: the second call
  starts in the world the first one left, whatever the first one returned.
\<close>

definition invoke_twice ::
  "('c, 'w) platform \<Rightarrow> 'w world \<Rightarrow> (py_error + unit) \<times> (py_error + unit) \<times> 'w world" where
  "invoke_twice p s0 =
     (case script p s0 of
        (r1, s1) \<Rightarrow> (case script p s1 of (r2, s2) \<Rightarrow> (r1, r2, s2)))"

subsection \<open>Stand-ins for the collaborator\<close>

text \<open>
  Mock platforms whose client construction succeeds. \<open>mock\<close> answers with a fixed
  response and counts the calls it serves; \<open>counting_mock\<close> answers according to that
  count; \<open>failing_mock\<close> raises; \<open>recording_mock\<close> keeps the arguments of every call
  it serves (the bearer token of the environment it was given, the model identifier and
  the messages). Their standard output accepts every text, except that of \<open>ascii_mock\<close>,
  which encodes ASCII only.
\<close>

definition mock :: "pyval \<Rightarrow> (unit, nat) platform" where
  "mock response =
     \<lparr>boto3_client = (\<lambda>env sv rg w. (Inr (), w)),
      client_converse = (\<lambda>c env mid msgs w. (Inr response, Suc w)),
      builtin_str = (\<lambda>v. Inr ''<object>''),
      encode_error = (\<lambda>txt. None)\<rparr>"

definition text_response :: "string \<Rightarrow> pyval" where
  "text_response t =
     PDict [(''output'', PDict [(''message'', PDict [(''content'', PList [PDict [(''text'', PStr t)]])])])]"

definition counting_mock :: "(unit, nat) platform" where
  "counting_mock =
     \<lparr>boto3_client = (\<lambda>env sv rg w. (Inr (), w)),
      client_converse = (\<lambda>c env mid msgs w.
         (Inr (text_response (if w = 0 then ''first'' else ''second'')), Suc w)),
      builtin_str = (\<lambda>v. Inr ''<object>''),
      encode_error = (\<lambda>txt. None)\<rparr>"

definition failing_mock :: "(unit, nat) platform" where
  "failing_mock =
     \<lparr>boto3_client = (\<lambda>env sv rg w. (Inr (), w)),
      client_converse = (\<lambda>c env mid msgs w. (Inl (SdkError ''network''), Suc w)),
      builtin_str = (\<lambda>v. Inr ''<object>''),
      encode_error = (\<lambda>txt. None)\<rparr>"

definition recording_mock :: "pyval \<Rightarrow> (unit, (string option \<times> string \<times> pyval) list) platform" where
  "recording_mock response =
     \<lparr>boto3_client = (\<lambda>env sv rg w. (Inr (), w)),
      client_converse = (\<lambda>c env mid msgs w. (Inr response, w @ [(env token_var, mid, msgs)])),
      builtin_str = (\<lambda>v. Inr ''<object>''),
      encode_error = (\<lambda>txt. None)\<rparr>"

definition ascii_mock :: "pyval \<Rightarrow> (unit, nat) platform" where
  "ascii_mock response =
     \<lparr>boto3_client = (\<lambda>env sv rg w. (Inr (), w)),
      client_converse = (\<lambda>c env mid msgs w. (Inr response, Suc w)),
      builtin_str = (\<lambda>v. Inr ''<object>''),
      encode_error =
        (\<lambda>txt. if list_all (\<lambda>ch. (of_char ch :: nat) < 128) txt then None
               else Some UnicodeEncodeError)\<rparr>"

definition recorder_start :: "(string option \<times> string \<times> pyval) list world" where
  "recorder_start = \<lparr>environ = Map.empty, stdout = [], trace = [], remote = []\<rparr>"

definition start :: "nat world" where
  "start = \<lparr>environ = Map.empty, stdout = [], trace = [], remote = 0\<rparr>"

section \<open>Properties\<close>

subsection \<open>Unfolding a run\<close>


lemma script_converse_fails:
  assumes "boto3_client p ((environ s)(token_var \<mapsto> api_key)) service_name region_name (remote s)
             = (Inr c, w1)"
    and "client_converse p c ((environ s)(token_var \<mapsto> api_key)) model_id messages w1
             = (Inl e, w2)"
  shows "script p s =
     (Inl e, s\<lparr>environ := (environ s)(token_var \<mapsto> api_key),
              trace := trace s @ [EvSetEnv token_var api_key,
                                  EvClient (Some api_key) service_name region_name,
                                  EvConverse (Some api_key) model_id messages],
              remote := w2\<rparr>)"
  using assms by (simp add: script_def setenv_def new_client_def call_converse_def)

lemma script_extract_fails:
  assumes "boto3_client p ((environ s)(token_var \<mapsto> api_key)) service_name region_name (remote s)
             = (Inr c, w1)"
    and "client_converse p c ((environ s)(token_var \<mapsto> api_key)) model_id messages w1
             = (Inr response, w2)"
    and "extract_text response = Inl e"
  shows "script p s =
     (Inl e, s\<lparr>environ := (environ s)(token_var \<mapsto> api_key),
              trace := trace s @ [EvSetEnv token_var api_key,
                                  EvClient (Some api_key) service_name region_name,
                                  EvConverse (Some api_key) model_id messages],
              remote := w2\<rparr>)"
  using assms by (simp add: script_def setenv_def new_client_def call_converse_def)

lemma script_print_fails:
  assumes "boto3_client p ((environ s)(token_var \<mapsto> api_key)) service_name region_name (remote s)
             = (Inr c, w1)"
    and "client_converse p c ((environ s)(token_var \<mapsto> api_key)) model_id messages w1
             = (Inr response, w2)"
    and "extract_text response = Inr t"
    and "print_text p t = Inl e"
  shows "script p s =
     (Inl e, s\<lparr>environ := (environ s)(token_var \<mapsto> api_key),
              trace := trace s @ [EvSetEnv token_var api_key,
                                  EvClient (Some api_key) service_name region_name,
                                  EvConverse (Some api_key) model_id messages],
              remote := w2\<rparr>)"
  using assms
  by (simp add: script_def setenv_def new_client_def call_converse_def py_print_def)

lemma script_prints:
  assumes "boto3_client p ((environ s)(token_var \<mapsto> api_key)) service_name region_name (remote s)
             = (Inr c, w1)"
    and "client_converse p c ((environ s)(token_var \<mapsto> api_key)) model_id messages w1
             = (Inr response, w2)"
    and "extract_text response = Inr t"
    and "print_text p t = Inr txt"
  shows "script p s =
     (Inr (), s\<lparr>environ := (environ s)(token_var \<mapsto> api_key),
               stdout := stdout s @ txt @ [newline],
               trace := trace s @ [EvSetEnv token_var api_key,
                                   EvClient (Some api_key) service_name region_name,
                                   EvConverse (Some api_key) model_id messages,
                                   EvPrint txt],
               remote := w2\<rparr>)"
  using assms
  by (simp add: script_def setenv_def new_client_def call_converse_def py_print_def)

lemma environ_script:
  "environ (snd (script p s)) = (environ s)(token_var \<mapsto> api_key)"
  by (simp add: script_def setenv_def new_client_def call_converse_def py_print_def
           split: prod.splits sum.splits)

lemma trace_script:
  "trace (snd (script p s)) = trace s @ new_events p s"
  by (simp add: new_events_def script_def setenv_def new_client_def call_converse_def
                py_print_def split: prod.splits sum.splits)

lemma py_str_PStr: "py_str p (PStr txt) = Inr txt"
  by (simp add: py_str_def)

lemma print_text_PStr:
  "print_text p (PStr txt) = (case encode_error p txt of Some e \<Rightarrow> Inl e | None \<Rightarrow> Inr txt)"
  by (simp add: print_text_def py_str_def)

lemma print_text_Inr:
  "print_text p t = Inr txt \<longleftrightarrow> py_str p t = Inr txt \<and> encode_error p txt = None"
  by (auto simp: print_text_def split: sum.splits option.splits)



lemma script_client_ok:
  assumes "boto3_client p ((environ s)(token_var \<mapsto> api_key)) service_name region_name (remote s)
             = (Inr c, w1)"
    and "client_converse p c ((environ s)(token_var \<mapsto> api_key)) model_id messages w1 = (r, w2)"
  shows "remote (snd (script p s)) = w2"
    and "fst (script p s) =
           (case r of Inl e \<Rightarrow> Inl e
            | Inr response \<Rightarrow>
                (case extract_text response of Inl e \<Rightarrow> Inl e
                 | Inr t \<Rightarrow> (case print_text p t of Inl e \<Rightarrow> Inl e | Inr txt \<Rightarrow> Inr ())))"
    and "stdout (snd (script p s)) = stdout s @
           (case r of Inl e \<Rightarrow> []
            | Inr response \<Rightarrow>
                (case extract_text response of Inl e \<Rightarrow> []
                 | Inr t \<Rightarrow> (case print_text p t of Inl e \<Rightarrow> [] | Inr txt \<Rightarrow> txt @ [newline])))"
  using assms
  by (simp_all add: script_def setenv_def new_client_def call_converse_def py_print_def
                split: prod.splits sum.splits)

subsection \<open>Extraction\<close>

lemma extract_text_present:
  assumes "map_of d ''output'' = Some (PDict out)"
    and "map_of out ''message'' = Some (PDict msg)"
    and "map_of msg ''content'' = Some (PList (PDict blk # blks))"
    and "map_of blk ''text'' = Some t"
  shows "extract_text (PDict d) = Inr t"
  using assms by (simp add: extract_text_def seq_index_def)

lemma extract_text_absent:
  assumes "map_of d ''output'' = None \<or>
           (map_of d ''output'' = Some (PDict out) \<and>
            (map_of out ''message'' = None \<or>
             (map_of out ''message'' = Some (PDict msg) \<and>
              (map_of msg ''content'' = None \<or>
               map_of msg ''content'' = Some (PList []) \<or>
               (map_of msg ''content'' = Some (PList (PDict blk # blks)) \<and>
                map_of blk ''text'' = None)))))"
  shows "extract_text (PDict d) = Inl KeyError \<or> extract_text (PDict d) = Inl IndexError"
  using assms by (auto simp: extract_text_def seq_index_def)

text \<open>
  The responses on which the subscript chain is defined are exactly the dictionaries
  that hold the path.
\<close>

lemma getitem_key_Inr:
  "py_getitem v (Key k) = Inr x \<longleftrightarrow> (\<exists>d. v = PDict d \<and> map_of d k = Some x)"
  by (cases v) (auto split: option.splits)

lemma seq_index_zero:
  "seq_index xs 0 = (case xs of [] \<Rightarrow> Inl IndexError | x # _ \<Rightarrow> Inr x)"
  by (cases xs) (simp_all add: seq_index_def)

lemma getitem_zero_Inr:
  "py_getitem v (Index 0) = Inr x \<longleftrightarrow>
     (\<exists>ys. v = PList (x # ys)) \<or> (\<exists>ch cs. v = PStr (ch # cs) \<and> x = PStr [ch])"
  by (cases v) (auto simp: seq_index_zero split: sum.splits list.splits)

lemma extract_text_Inr_iff:
  "extract_text r = Inr t \<longleftrightarrow>
     (\<exists>d out msg blk blks. r = PDict d
        \<and> map_of d ''output'' = Some (PDict out)
        \<and> map_of out ''message'' = Some (PDict msg)
        \<and> map_of msg ''content'' = Some (PList (PDict blk # blks))
        \<and> map_of blk ''text'' = Some t)"
  unfolding extract_text_def
  by (auto simp: getitem_key_Inr getitem_zero_Inr seq_index_zero split: sum.splits)


subsection \<open>What a run prints\<close>

text \<open>
  C1, as stated, fails: \<open>print\<close> can raise on a response that holds the path. On a
  standard output that encodes ASCII only, the text \<open>caf\<close> followed by the character
  U+00E9 is extracted, \<open>print\<close> raises UnicodeEncodeError, the exit status is 1 and
  nothing is written.
\<close>

theorem print_failure_counterexample:
  "extract_text (text_response (''caf'' @ [CHR 0xE9])) = Inr (PStr (''caf'' @ [CHR 0xE9]))
   \<and> fst (script (ascii_mock (text_response (''caf'' @ [CHR 0xE9]))) start) = Inl UnicodeEncodeError
   \<and> exit_code (fst (script (ascii_mock (text_response (''caf'' @ [CHR 0xE9]))) start)) = 1
   \<and> stdout (snd (script (ascii_mock (text_response (''caf'' @ [CHR 0xE9]))) start)) = []"
  by (simp add: script_def ascii_mock_def text_response_def start_def setenv_def new_client_def
                call_converse_def py_print_def print_text_def py_str_def extract_text_def
                seq_index_def exit_code_def)

text \<open>
  C1, amended. Whenever the collaborator answers with a response that holds
  \<open>output.message.content[0].text\<close> and \<open>print\<close> does not raise on that field (its
  \<open>str\<close> is defined and the output stream can encode it), the run appends exactly that
  text and one newline to standard output and ends with exit status 0; for a string
  field the text is the field itself. When \<open>print\<close> raises, the run ends with that
  error and standard output is left as it was. The witness is the scenario of the
  specification: the response
  \<open>{"output":{"message":{"content":[{"text":"Bedrock is a managed service."}]}}}\<close>
  gives the output \<open>Bedrock is a managed service.\<close> followed by a newline.
\<close>

theorem prints_text_field:
  assumes "boto3_client p ((environ s)(token_var \<mapsto> api_key)) service_name region_name (remote s)
             = (Inr c, w1)"
    and "client_converse p c ((environ s)(token_var \<mapsto> api_key)) model_id messages w1
             = (Inr (PDict d), w2)"
    and "map_of d ''output'' = Some (PDict out)"
    and "map_of out ''message'' = Some (PDict msg)"
    and "map_of msg ''content'' = Some (PList (PDict blk # blks))"
    and "map_of blk ''text'' = Some t"
  shows "(\<forall>txt. py_str p t = Inr txt \<and> encode_error p txt = None \<longrightarrow>
            stdout (snd (script p s)) = stdout s @ txt @ [newline]
          \<and> fst (script p s) = Inr ()
          \<and> exit_code (fst (script p s)) = 0)
       \<and> (\<forall>txt. t = PStr txt \<and> encode_error p txt = None \<longrightarrow>
            stdout (snd (script p s)) = stdout s @ txt @ [newline]
          \<and> exit_code (fst (script p s)) = 0)
       \<and> (\<forall>e. print_text p t = Inl e \<longrightarrow>
            fst (script p s) = Inl e \<and> stdout (snd (script p s)) = stdout s)"
proof -
  have ex: "extract_text (PDict d) = Inr t"
    using assms(3-6) by (rule extract_text_present)
  have ok: "\<forall>txt. print_text p t = Inr txt \<longrightarrow>
            stdout (snd (script p s)) = stdout s @ txt @ [newline]
          \<and> fst (script p s) = Inr () \<and> exit_code (fst (script p s)) = 0"
  proof (intro allI impI)
    fix out_text
    assume pt: "print_text p t = Inr out_text"
    show "stdout (snd (script p s)) = stdout s @ out_text @ [newline]
          \<and> fst (script p s) = Inr () \<and> exit_code (fst (script p s)) = 0"
      using script_prints [OF assms(1,2) ex pt] by (simp add: exit_code_def)
  qed
  have bad: "\<forall>e. print_text p t = Inl e \<longrightarrow>
            fst (script p s) = Inl e \<and> stdout (snd (script p s)) = stdout s"
  proof (intro allI impI)
    fix e
    assume pt: "print_text p t = Inl e"
    show "fst (script p s) = Inl e \<and> stdout (snd (script p s)) = stdout s"
      using script_print_fails [OF assms(1,2) ex pt] by simp
  qed
  have ok': "\<forall>txt. py_str p t = Inr txt \<and> encode_error p txt = None \<longrightarrow>
            stdout (snd (script p s)) = stdout s @ txt @ [newline]
          \<and> fst (script p s) = Inr () \<and> exit_code (fst (script p s)) = 0"
    using ok unfolding print_text_Inr by blast
  have str: "\<forall>txt. t = PStr txt \<and> encode_error p txt = None \<longrightarrow>
            stdout (snd (script p s)) = stdout s @ txt @ [newline]
          \<and> exit_code (fst (script p s)) = 0"
    using ok' by (auto simp: py_str_PStr)
  from ok' str bad show ?thesis
    by blast
qed

theorem prints_text_field_witness:
  "stdout (snd (script (mock (text_response ''Bedrock is a managed service.'')) start))
     = ''Bedrock is a managed service.'' @ [newline]
   \<and> exit_code (fst (script (mock (text_response ''Bedrock is a managed service.'')) start)) = 0"
  using prints_text_field
    [of "mock (text_response ''Bedrock is a managed service.'')" start "()" 0
        "[(''output'', PDict [(''message'', PDict [(''content'',
            PList [PDict [(''text'', PStr ''Bedrock is a managed service.'')]])])])]"
        1
        "[(''message'', PDict [(''content'',
            PList [PDict [(''text'', PStr ''Bedrock is a managed service.'')]])])]"
        "[(''content'', PList [PDict [(''text'', PStr ''Bedrock is a managed service.'')]])]"
        "[(''text'', PStr ''Bedrock is a managed service.'')]"
        "[]"
        "PStr ''Bedrock is a managed service.''"]
  by (simp add: mock_def text_response_def start_def)

text \<open>
  C2. Whenever the collaborator answers with a response that does not hold
  \<open>output.message.content[0].text\<close> (a key of the path is missing, the content list is
  empty, or a value on the way is not a dictionary or a list), the run ends with the
  uncaught error of the failing subscript, its exit status is not 0, and standard output
  is left as it was.
\<close>

theorem missing_path_fails:
  assumes "boto3_client p ((environ s)(token_var \<mapsto> api_key)) service_name region_name (remote s)
             = (Inr c, w1)"
    and "client_converse p c ((environ s)(token_var \<mapsto> api_key)) model_id messages w1
             = (Inr response, w2)"
    and "\<not> (\<exists>d out msg blk blks t. response = PDict d
              \<and> map_of d ''output'' = Some (PDict out)
              \<and> map_of out ''message'' = Some (PDict msg)
              \<and> map_of msg ''content'' = Some (PList (PDict blk # blks))
              \<and> map_of blk ''text'' = Some t)"
  shows "(\<exists>e. extract_text response = Inl e \<and> fst (script p s) = Inl e)
       \<and> exit_code (fst (script p s)) \<noteq> 0
       \<and> stdout (snd (script p s)) = stdout s"
proof -
  have "\<forall>t. extract_text response \<noteq> Inr t"
    using assms(3) unfolding extract_text_Inr_iff by blast
  then obtain e where e: "extract_text response = Inl e"
    by (cases "extract_text response") auto
  from assms(1,2) e have run: "script p s =
     (Inl e, s\<lparr>environ := (environ s)(token_var \<mapsto> api_key),
              trace := trace s @ [EvSetEnv token_var api_key,
                                  EvClient (Some api_key) service_name region_name,
                                  EvConverse (Some api_key) model_id messages],
              remote := w2\<rparr>)"
    by (rule script_extract_fails)
  show ?thesis
    by (simp add: run e exit_code_def)
qed

theorem missing_path_fails_witness:
  "fst (script (mock (PDict [(''output'', PNone)])) start) = Inl TypeError
   \<and> exit_code (fst (script (mock (PDict [(''output'', PNone)])) start)) \<noteq> 0
   \<and> stdout (snd (script (mock (PDict [(''output'', PNone)])) start)) = []"
proof -
  have ex: "extract_text (PDict [(''output'', PNone)]) = Inl TypeError"
    by (simp add: extract_text_def)
  have "\<not> (\<exists>d out msg blk blks t. PDict [(''output'', PNone)] = PDict d
              \<and> map_of d ''output'' = Some (PDict out)
              \<and> map_of out ''message'' = Some (PDict msg)
              \<and> map_of msg ''content'' = Some (PList (PDict blk # blks))
              \<and> map_of blk ''text'' = Some t)"
    by auto
  with missing_path_fails
    [of "mock (PDict [(''output'', PNone)])" start "()" 0 "PDict [(''output'', PNone)]" 1]
  show ?thesis
    by (simp add: mock_def start_def ex exit_code_def)
qed

text \<open>
  C10. The extraction reads the keys 'output', 'message', 'content', element 0 of the
  list and the key 'text' of that element, and nothing else: whatever other entries the
  four dictionaries hold and whatever blocks follow the first one, a response whose
  \<open>output.message.content\<close> is a non-empty list with a 'text' entry in its first element
  gives that entry.
\<close>

theorem extraction_ignores_the_rest:
  assumes "map_of d ''output'' = Some (PDict out)"
    and "map_of out ''message'' = Some (PDict msg)"
    and "map_of msg ''content'' = Some (PList (PDict blk # blks))"
    and "map_of blk ''text'' = Some t"
  shows "extract_text (PDict d) = Inr t"
  using assms by (simp add: extract_text_def seq_index_def)

theorem extraction_ignores_the_rest_witness:
  "extract_text
     (PDict [(''ResponseMetadata'', PDict [(''HTTPStatusCode'', PInt 200)]),
             (''output'', PDict [(''message'',
                PDict [(''role'', PStr ''assistant''),
                       (''content'', PList [PDict [(''text'', PStr ''first block''), (''extra'', PNone)],
                                            PDict [(''text'', PStr ''second block'')],
                                            PInt 7])])]),
             (''stopReason'', PStr ''end_turn'')])
   = Inr (PStr ''first block'')"
  using extraction_ignores_the_rest
    [of "[(''ResponseMetadata'', PDict [(''HTTPStatusCode'', PInt 200)]),
          (''output'', PDict [(''message'',
                PDict [(''role'', PStr ''assistant''),
                       (''content'', PList [PDict [(''text'', PStr ''first block''), (''extra'', PNone)],
                                            PDict [(''text'', PStr ''second block'')],
                                            PInt 7])])]),
          (''stopReason'', PStr ''end_turn'')]"
        "[(''message'',
                PDict [(''role'', PStr ''assistant''),
                       (''content'', PList [PDict [(''text'', PStr ''first block''), (''extra'', PNone)],
                                            PDict [(''text'', PStr ''second block'')],
                                            PInt 7])])]"
        "[(''role'', PStr ''assistant''),
          (''content'', PList [PDict [(''text'', PStr ''first block''), (''extra'', PNone)],
                               PDict [(''text'', PStr ''second block'')],
                               PInt 7])]"
        "[(''text'', PStr ''first block''), (''extra'', PNone)]"
        "[PDict [(''text'', PStr ''second block'')], PInt 7]"
        "PStr ''first block''"]
  by simp

text \<open>
  C6, as stated, fails: the text is printed as it is, so a text that holds a newline
  makes a successful run print more than one line.
\<close>

theorem single_line_counterexample:
  "fst (script (mock (text_response (''Bedrock is managed.'' @ [newline] @ ''It hosts models.''))) start)
     = Inr ()
   \<and> stdout (snd (script (mock (text_response
        (''Bedrock is managed.'' @ [newline] @ ''It hosts models.''))) start))
     = ''Bedrock is managed.'' @ [newline] @ ''It hosts models.'' @ [newline]
   \<and> \<not> single_line (stdout (snd (script (mock (text_response
        (''Bedrock is managed.'' @ [newline] @ ''It hosts models.''))) start)))"
  by (simp add: script_def mock_def text_response_def start_def setenv_def new_client_def
                call_converse_def py_print_def print_text_def py_str_def extract_text_def
                seq_index_def single_line_def newline_def)

text \<open>
  C6, amended. A run that starts with an empty standard output, extracts the text field
  and prints it without an error is successful and leaves exactly the printed text
  (\<open>str\<close> of the field; the field itself when it is a string) followed by one newline
  on standard output; this is a single line exactly when the printed text holds no
  newline character.
\<close>

theorem stdout_is_text_and_newline:
  assumes "boto3_client p ((environ s)(token_var \<mapsto> api_key)) service_name region_name (remote s)
             = (Inr c, w1)"
    and "client_converse p c ((environ s)(token_var \<mapsto> api_key)) model_id messages w1
             = (Inr response, w2)"
    and "extract_text response = Inr t"
    and "py_str p t = Inr txt"
    and "encode_error p txt = None"
    and "stdout s = []"
  shows "fst (script p s) = Inr ()
       \<and> stdout (snd (script p s)) = txt @ [newline]
       \<and> (single_line (stdout (snd (script p s))) \<longleftrightarrow> newline \<notin> set txt)
       \<and> (\<forall>x. t = PStr x \<longrightarrow> txt = x)"
proof -
  have pt: "print_text p t = Inr txt"
    using assms(4,5) by (simp add: print_text_Inr)
  have str: "\<forall>x. t = PStr x \<longrightarrow> txt = x"
    using assms(4) by (auto simp: py_str_PStr)
  show ?thesis
    using script_prints [OF assms(1-3) pt] str
    by (simp add: assms(6) single_line_def)
qed

theorem stdout_is_text_and_newline_witness:
  "stdout (snd (script (mock (text_response ''Managed inference.'')) start))
     = ''Managed inference.'' @ [newline]
   \<and> single_line (stdout (snd (script (mock (text_response ''Managed inference.'')) start)))"
  using stdout_is_text_and_newline
    [of "mock (text_response ''Managed inference.'')" start "()" 0
        "text_response ''Managed inference.''" 1 "PStr ''Managed inference.''"
        "''Managed inference.''"]
  by (auto simp: mock_def text_response_def start_def extract_text_def seq_index_def newline_def
                 py_str_def)

subsection \<open>The process environment\<close>

lemma new_events_cases:
  "new_events p s = [EvSetEnv token_var api_key,
                     EvClient (Some api_key) service_name region_name]
   \<or> new_events p s = [EvSetEnv token_var api_key,
                        EvClient (Some api_key) service_name region_name,
                        EvConverse (Some api_key) model_id messages]
   \<or> (\<exists>t. new_events p s = [EvSetEnv token_var api_key,
                              EvClient (Some api_key) service_name region_name,
                              EvConverse (Some api_key) model_id messages,
                              EvPrint t])"
  by (simp add: new_events_def script_def setenv_def new_client_def call_converse_def
                py_print_def split: prod.splits sum.splits)

text \<open>
  C8. The value stored under AWS_BEARER_TOKEN_BEDROCK is the literal \<open>${api-key}\<close> of
  the source, for every collaborator and every starting world (nothing is read to
  produce it); the literal is not empty; and the assignment stores any string it is
  given, without a check.
\<close>

theorem credential_is_placeholder:
  "environ (snd (script p s)) ''AWS_BEARER_TOKEN_BEDROCK'' = Some ''${api-key}''
   \<and> hd (new_events p s) = EvSetEnv ''AWS_BEARER_TOKEN_BEDROCK'' ''${api-key}''
   \<and> api_key = ''${api-key}'' \<and> api_key \<noteq> []
   \<and> (\<forall>v. environ (setenv token_var v s) token_var = Some v)"
proof -
  have "environ (snd (script p s)) token_var = Some api_key"
    by (simp add: environ_script)
  moreover have "hd (new_events p s) = EvSetEnv token_var api_key"
    using new_events_cases [of p s] by auto
  ultimately show ?thesis
    by (simp add: token_var_def api_key_def setenv_def)
qed

theorem credential_is_placeholder_witness:
  "environ (snd (script failing_mock start)) ''AWS_BEARER_TOKEN_BEDROCK'' = Some ''${api-key}''
   \<and> environ (setenv token_var [] start) token_var = Some []"
  using credential_is_placeholder [of failing_mock start]
  by simp

text \<open>
  C9. A run changes the process environment at the key AWS_BEARER_TOKEN_BEDROCK and
  nowhere else: every other variable keeps its value, the key holds the literal
  afterwards whatever it held before, and no other assignment to the environment is
  among the events of the run.
\<close>

theorem environ_frame:
  "environ (snd (script p s)) = (environ s)(''AWS_BEARER_TOKEN_BEDROCK'' \<mapsto> ''${api-key}'')
   \<and> (\<forall>k. k \<noteq> ''AWS_BEARER_TOKEN_BEDROCK'' \<longrightarrow> environ (snd (script p s)) k = environ s k)
   \<and> environ (snd (script p s)) ''AWS_BEARER_TOKEN_BEDROCK'' = Some ''${api-key}''
   \<and> (\<forall>k v. EvSetEnv k v \<in> set (new_events p s) \<longrightarrow> k = ''AWS_BEARER_TOKEN_BEDROCK'')"
proof -
  have env: "environ (snd (script p s)) = (environ s)(token_var \<mapsto> api_key)"
    by (rule environ_script)
  have "\<forall>k v. EvSetEnv k v \<in> set (new_events p s) \<longrightarrow> k = token_var"
    using new_events_cases [of p s] by auto
  then show ?thesis
    by (simp add: env token_var_def api_key_def)
qed

theorem environ_frame_witness:
  "environ (snd (script (mock PNone)
      (start\<lparr>environ := [''PATH'' \<mapsto> ''/usr/bin'', ''AWS_BEARER_TOKEN_BEDROCK'' \<mapsto> ''old'']\<rparr>)))
      ''PATH'' = Some ''/usr/bin''
   \<and> environ (snd (script (mock PNone)
      (start\<lparr>environ := [''PATH'' \<mapsto> ''/usr/bin'', ''AWS_BEARER_TOKEN_BEDROCK'' \<mapsto> ''old'']\<rparr>)))
      ''AWS_BEARER_TOKEN_BEDROCK'' = Some ''${api-key}''"
  using environ_frame [of "mock PNone"
      "start\<lparr>environ := [''PATH'' \<mapsto> ''/usr/bin'', ''AWS_BEARER_TOKEN_BEDROCK'' \<mapsto> ''old'']\<rparr>"]
  by simp


subsection \<open>The request and the order of the effects\<close>

lemma run_cases:
  "((\<exists>e. fst (script p s) = Inl e)
      \<and> new_events p s = [EvSetEnv token_var api_key,
                          EvClient (Some api_key) service_name region_name]
      \<and> stdout (snd (script p s)) = stdout s)
   \<or> ((\<exists>e. fst (script p s) = Inl e)
      \<and> new_events p s = [EvSetEnv token_var api_key,
                          EvClient (Some api_key) service_name region_name,
                          EvConverse (Some api_key) model_id messages]
      \<and> stdout (snd (script p s)) = stdout s)
   \<or> (fst (script p s) = Inr ()
      \<and> (\<exists>t. new_events p s = [EvSetEnv token_var api_key,
                                EvClient (Some api_key) service_name region_name,
                                EvConverse (Some api_key) model_id messages,
                                EvPrint t]
             \<and> stdout (snd (script p s)) = stdout s @ t @ [newline]))"
  by (simp add: new_events_def script_def setenv_def new_client_def call_converse_def
                py_print_def split: prod.splits sum.splits)

lemma new_events_client_ok:
  assumes "boto3_client p ((environ s)(token_var \<mapsto> api_key)) service_name region_name (remote s)
             = (Inr c, w1)"
  shows "filter is_converse (new_events p s) = [EvConverse (Some api_key) model_id messages]"
  using assms
  by (simp add: new_events_def script_def setenv_def new_client_def call_converse_def
                py_print_def is_converse_def split: prod.splits sum.splits)


lemma is_converse_simps:
  "\<not> is_converse (EvSetEnv k v)" "\<not> is_converse (EvClient tok sv rg)"
  "is_converse (EvConverse tok mid msgs)" "\<not> is_converse (EvPrint t)"
  by (simp_all add: is_converse_def)


text \<open>
  C3. Whenever the client is constructed, the run applies the client's \<open>converse\<close>
  once, to the model identifier \<open>us.anthropic.claude-3-5-haiku-20241022-v1:0\<close> and to
  a message list of exactly one message, with role \<open>user\<close> and the greeting as its only
  content block: the collaborator's state after the run and the outcome of the run are
  those of that one application, for every collaborator and every starting world, and
  the run logs that request and no other. The witness is a collaborator that records
  the arguments it is called with.
\<close>

theorem outbound_request_is_fixed:
  "(\<forall>c w1. boto3_client p ((environ s)(token_var \<mapsto> api_key)) service_name region_name
                (remote s) = (Inr c, w1) \<longrightarrow>
        remote (snd (script p s)) =
          snd (client_converse p c ((environ s)(token_var \<mapsto> api_key))
                 ''us.anthropic.claude-3-5-haiku-20241022-v1:0''
                 (PList [PDict [(''role'', PStr ''user''),
                                (''content'', PList [PDict [(''text'',
                                   PStr ''Hello! Can you tell me about Amazon Bedrock?'')]])]])
                 w1)
      \<and> fst (script p s) =
          (case fst (client_converse p c ((environ s)(token_var \<mapsto> api_key))
                 ''us.anthropic.claude-3-5-haiku-20241022-v1:0''
                 (PList [PDict [(''role'', PStr ''user''),
                                (''content'', PList [PDict [(''text'',
                                   PStr ''Hello! Can you tell me about Amazon Bedrock?'')]])]])
                 w1) of
             Inl e \<Rightarrow> Inl e
           | Inr response \<Rightarrow>
               (case extract_text response of
                  Inl e \<Rightarrow> Inl e
                | Inr t \<Rightarrow> (case print_text p t of Inl e \<Rightarrow> Inl e | Inr line \<Rightarrow> Inr ())))
      \<and> filter is_converse (new_events p s) =
          [EvConverse (Some ''${api-key}'') ''us.anthropic.claude-3-5-haiku-20241022-v1:0''
            (PList [PDict [(''role'', PStr ''user''),
                           (''content'', PList [PDict [(''text'',
                              PStr ''Hello! Can you tell me about Amazon Bedrock?'')]])]])])
   \<and> (\<forall>e \<in> set (new_events p s). is_converse e \<longrightarrow>
      e = EvConverse (Some ''${api-key}'') ''us.anthropic.claude-3-5-haiku-20241022-v1:0''
            (PList [PDict [(''role'', PStr ''user''),
                           (''content'', PList [PDict [(''text'',
                              PStr ''Hello! Can you tell me about Amazon Bedrock?'')]])]]))"
proof -
  have sent: "\<forall>c w1. boto3_client p ((environ s)(token_var \<mapsto> api_key)) service_name region_name
                (remote s) = (Inr c, w1) \<longrightarrow>
        remote (snd (script p s)) =
          snd (client_converse p c ((environ s)(token_var \<mapsto> api_key)) model_id messages w1)
      \<and> fst (script p s) =
          (case fst (client_converse p c ((environ s)(token_var \<mapsto> api_key)) model_id messages w1) of
             Inl e \<Rightarrow> Inl e
           | Inr response \<Rightarrow>
               (case extract_text response of
                  Inl e \<Rightarrow> Inl e
                | Inr t \<Rightarrow> (case print_text p t of Inl e \<Rightarrow> Inl e | Inr line \<Rightarrow> Inr ())))
      \<and> filter is_converse (new_events p s) = [EvConverse (Some api_key) model_id messages]"
  proof (intro allI impI)
    fix c w1
    assume cl: "boto3_client p ((environ s)(token_var \<mapsto> api_key)) service_name region_name
                  (remote s) = (Inr c, w1)"
    obtain r w2 where cv:
      "client_converse p c ((environ s)(token_var \<mapsto> api_key)) model_id messages w1 = (r, w2)"
      by (cases "client_converse p c ((environ s)(token_var \<mapsto> api_key)) model_id messages w1")
    show "remote (snd (script p s)) =
          snd (client_converse p c ((environ s)(token_var \<mapsto> api_key)) model_id messages w1)
      \<and> fst (script p s) =
          (case fst (client_converse p c ((environ s)(token_var \<mapsto> api_key)) model_id messages w1) of
             Inl e \<Rightarrow> Inl e
           | Inr response \<Rightarrow>
               (case extract_text response of
                  Inl e \<Rightarrow> Inl e
                | Inr t \<Rightarrow> (case print_text p t of Inl e \<Rightarrow> Inl e | Inr line \<Rightarrow> Inr ())))
      \<and> filter is_converse (new_events p s) = [EvConverse (Some api_key) model_id messages]"
      using script_client_ok(1,2) [OF cl cv] new_events_client_ok [OF cl]
      by (simp add: cv)
  qed
  have logged: "\<forall>e \<in> set (new_events p s). is_converse e \<longrightarrow>
          e = EvConverse (Some api_key) model_id messages"
    using run_cases [of p s] by (auto simp: is_converse_simps)
  from sent logged show ?thesis
    by (simp add: api_key_def model_id_def messages_def)
qed

theorem outbound_request_is_fixed_witness:
  "remote (snd (script (recording_mock PNone) recorder_start)) =
     [(Some ''${api-key}'', ''us.anthropic.claude-3-5-haiku-20241022-v1:0'',
       PList [PDict [(''role'', PStr ''user''),
                     (''content'', PList [PDict [(''text'',
                        PStr ''Hello! Can you tell me about Amazon Bedrock?'')]])]])]"
proof -
  have cl: "boto3_client (recording_mock PNone) ((environ recorder_start)(token_var \<mapsto> api_key))
          service_name region_name (remote recorder_start) = (Inr (), [])"
    by (simp add: recording_mock_def recorder_start_def)
  have "remote (snd (script (recording_mock PNone) recorder_start)) =
          snd (client_converse (recording_mock PNone) ()
                 ((environ recorder_start)(token_var \<mapsto> api_key))
                 ''us.anthropic.claude-3-5-haiku-20241022-v1:0''
                 (PList [PDict [(''role'', PStr ''user''),
                                (''content'', PList [PDict [(''text'',
                                   PStr ''Hello! Can you tell me about Amazon Bedrock?'')]])]])
                 [])"
    by (rule outbound_request_is_fixed
          [of "recording_mock PNone" recorder_start, THEN conjunct1, rule_format, OF cl,
           THEN conjunct1])
  then show ?thesis
    by (simp add: recording_mock_def recorder_start_def token_var_def api_key_def)
qed

text \<open>
  C4. The events of a run are, in this order: the assignment of the literal to
  AWS_BEARER_TOKEN_BEDROCK, the construction of the client, the \<open>converse\<close> call, the
  print; a run that stops early has a prefix of them. Both SDK calls find the literal in
  the environment, and standard output is written only in a run whose \<open>converse\<close> call
  has returned, after it.
\<close>

theorem setup_call_print_order:
  "trace (snd (script p s)) = trace s @ new_events p s
   \<and> ((new_events p s = [EvSetEnv ''AWS_BEARER_TOKEN_BEDROCK'' ''${api-key}'',
                          EvClient (Some ''${api-key}'') service_name region_name]
        \<and> stdout (snd (script p s)) = stdout s)
      \<or> (new_events p s = [EvSetEnv ''AWS_BEARER_TOKEN_BEDROCK'' ''${api-key}'',
                            EvClient (Some ''${api-key}'') service_name region_name,
                            EvConverse (Some ''${api-key}'') model_id messages]
        \<and> stdout (snd (script p s)) = stdout s)
      \<or> (\<exists>t. new_events p s = [EvSetEnv ''AWS_BEARER_TOKEN_BEDROCK'' ''${api-key}'',
                                 EvClient (Some ''${api-key}'') service_name region_name,
                                 EvConverse (Some ''${api-key}'') model_id messages,
                                 EvPrint t]
        \<and> stdout (snd (script p s)) = stdout s @ t @ [newline]))"
proof -
  have "trace (snd (script p s)) = trace s @ new_events p s"
    by (rule trace_script)
  then show ?thesis
    using run_cases [of p s] unfolding token_var_def api_key_def by blast
qed
theorem setup_call_print_order_witness:
  "trace (snd (script (mock (text_response ''ok'')) start)) =
     [EvSetEnv ''AWS_BEARER_TOKEN_BEDROCK'' ''${api-key}'',
      EvClient (Some ''${api-key}'') ''bedrock-runtime'' ''us-east-1'',
      EvConverse (Some ''${api-key}'') model_id messages,
      EvPrint ''ok'']"
proof -
  have "fst (script (mock (text_response ''ok'')) start) = Inr ()"
    and "stdout (snd (script (mock (text_response ''ok'')) start)) = ''ok'' @ [newline]"
    by (simp_all add: script_def mock_def text_response_def start_def setenv_def new_client_def
                  call_converse_def py_print_def print_text_def py_str_def extract_text_def
                  seq_index_def)
  with setup_call_print_order [of "mock (text_response ''ok'')" start] show ?thesis
    by (auto simp: start_def service_name_def region_name_def)
qed



subsection \<open>Two invocations\<close>

lemma invoke_twice_unfold:
  "invoke_twice p s =
     (fst (script p s), fst (script p (snd (script p s))), snd (script p (snd (script p s))))"
  by (simp add: invoke_twice_def split: prod.splits)

text \<open>
  C7. When the module body is invoked twice in one process and the client is constructed
  in both invocations, the log holds two \<open>converse\<close> events, one per invocation, and the
  collaborator has served two calls; the outcome and the output of the second invocation
  are those of the collaborator's answer to the second call, not of its answer to the
  first: the second invocation prints the text extracted from that answer when the
  extraction and \<open>print\<close> succeed, and ends with their error otherwise.
\<close>

theorem two_invocations_two_requests:
  assumes "boto3_client p ((environ s)(token_var \<mapsto> api_key)) service_name region_name (remote s)
             = (Inr c1, w1)"
    and "client_converse p c1 ((environ s)(token_var \<mapsto> api_key)) model_id messages w1 = (r1, w2)"
    and "boto3_client p ((environ s)(token_var \<mapsto> api_key)) service_name region_name w2
             = (Inr c2, w3)"
    and "client_converse p c2 ((environ s)(token_var \<mapsto> api_key)) model_id messages w3 = (r2, w4)"
  shows "filter is_converse (drop (length (trace s)) (trace (snd (snd (invoke_twice p s)))))
           = [EvConverse (Some api_key) model_id messages,
              EvConverse (Some api_key) model_id messages]
       \<and> remote (snd (snd (invoke_twice p s))) = w4
       \<and> fst (snd (invoke_twice p s)) =
           (case r2 of Inl e \<Rightarrow> Inl e
            | Inr response \<Rightarrow>
                (case extract_text response of Inl e \<Rightarrow> Inl e
                 | Inr t \<Rightarrow> (case print_text p t of Inl e \<Rightarrow> Inl e | Inr line \<Rightarrow> Inr ())))
       \<and> stdout (snd (snd (invoke_twice p s))) = stdout (snd (script p s)) @
           (case r2 of Inl e \<Rightarrow> []
            | Inr response \<Rightarrow>
                (case extract_text response of Inl e \<Rightarrow> []
                 | Inr t \<Rightarrow> (case print_text p t of Inl e \<Rightarrow> [] | Inr line \<Rightarrow> line @ [newline])))"
proof -
  define s1 where "s1 = snd (script p s)"
  have env1: "(environ s1)(token_var \<mapsto> api_key) = (environ s)(token_var \<mapsto> api_key)"
    by (simp add: s1_def environ_script)
  have rem1: "remote s1 = w2"
    unfolding s1_def using assms(1,2) by (rule script_client_ok(1))
  have c2: "boto3_client p ((environ s1)(token_var \<mapsto> api_key)) service_name region_name (remote s1)
              = (Inr c2, w3)"
    using assms(3) by (simp add: env1 rem1)
  have r2: "client_converse p c2 ((environ s1)(token_var \<mapsto> api_key)) model_id messages w3
              = (r2, w4)"
    using assms(4) by (simp add: env1)
  have ev1: "filter is_converse (new_events p s) = [EvConverse (Some api_key) model_id messages]"
    using assms(1) by (rule new_events_client_ok)
  have ev2: "filter is_converse (new_events p s1) = [EvConverse (Some api_key) model_id messages]"
    using c2 by (rule new_events_client_ok)
  have "trace (snd (script p s1)) = trace s @ new_events p s @ new_events p s1"
    by (simp add: trace_script s1_def)
  then have events: "filter is_converse (drop (length (trace s)) (trace (snd (script p s1))))
           = [EvConverse (Some api_key) model_id messages,
              EvConverse (Some api_key) model_id messages]"
    by (simp add: ev1 ev2)
  show ?thesis
    unfolding invoke_twice_unfold
    using events script_client_ok [OF c2 r2] by (simp add: s1_def)
qed

theorem two_invocations_two_requests_witness:
  "stdout (snd (snd (invoke_twice counting_mock start)))
     = ''first'' @ [newline] @ ''second'' @ [newline]
   \<and> remote (snd (snd (invoke_twice counting_mock start))) = 2
   \<and> filter is_converse (trace (snd (snd (invoke_twice counting_mock start))))
       = [EvConverse (Some api_key) model_id messages, EvConverse (Some api_key) model_id messages]"
proof -
  have first: "stdout (snd (script counting_mock start)) = ''first'' @ [newline]"
    by (simp add: script_def counting_mock_def text_response_def start_def setenv_def
                  new_client_def call_converse_def py_print_def print_text_def py_str_def
                  extract_text_def seq_index_def)
  have "trace start = []"
    by (simp add: start_def)
  with first two_invocations_two_requests
    [of counting_mock start "()" 0 "Inr (text_response ''first'')" 1 "()" 1
        "Inr (text_response ''second'')" 2]
  show ?thesis
    by (simp add: counting_mock_def text_response_def start_def print_text_def py_str_def
                  extract_text_def seq_index_def)
qed

end
